theory Spec2Isabelle
  imports Main "HOL-Library.Word" "HOL-Library.Sublist"
begin

unbundle bit_operations_syntax

section \<open>Text and bytes\<close>

text \<open>
  A Python \<open>str\<close> is a \<^typ>\<open>string\<close>, one \<^typ>\<open>char\<close> per code point (code points
  below 256), so that \<^const>\<open>length\<close> is Python's \<open>len\<close>. A \<open>bytes\<close> value is a list
  of 8-bit words.
\<close>

type_synonym byte = "8 word"

text \<open>\<open>str.encode()\<close>: UTF-8, one byte below 128 and two bytes from 128 to 255.\<close>

definition encode :: "string \<Rightarrow> byte list" where
  "encode s = concat (map (\<lambda>c. let n = (of_char c :: nat) in
       if n < 128 then [of_nat n] else [of_nat (192 + n div 64), of_nat (128 + n mod 64)]) s)"

definition hexdigit :: "nat \<Rightarrow> char" where
  "hexdigit n = ''0123456789abcdef'' ! (n mod 16)"

text \<open>\<open>binascii.hexlify(b).decode()\<close>: two lower-case hexadecimal digits per byte.\<close>

definition hexlify :: "byte list \<Rightarrow> string" where
  "hexlify bs = concat (map (\<lambda>b. [hexdigit (unat b div 16), hexdigit (unat b mod 16)]) bs)"

text \<open>
  \<open>hashlib.sha256(b).hexdigest()\<close>. The compression function of SHA-256 belongs to the
  Python library; it is a parameter \<open>sha256\<close> of the model, of the type the standard gives
  it (a 256-bit digest). \<open>hexdigest\<close> writes the digest as 64 hexadecimal digits, most
  significant first.
\<close>

type_synonym sha256_fn = "byte list \<Rightarrow> 256 word"

definition hexdigest :: "256 word \<Rightarrow> string" where
  "hexdigest d = map (\<lambda>i. hexdigit (unat d div 16 ^ (63 - i))) [0..<64]"

text \<open>
  \<open>os.urandom(n)\<close>: the next \<open>n\<close> bytes of the operating system's entropy source; the
  source is a parameter \<open>src\<close> of every call that draws from it.
\<close>

definition os_urandom :: "(nat \<Rightarrow> byte) \<Rightarrow> nat \<Rightarrow> byte list" where
  "os_urandom src n = map src [0..<n]"

text \<open>\<open>str.isspace\<close> on the code points below 256, and \<open>str.strip()\<close>.\<close>

definition isspace :: "char \<Rightarrow> bool" where
  "isspace c = ((of_char c :: nat) \<in> {9, 10, 11, 12, 13, 28, 29, 30, 31, 32, 133, 160})"

definition strip :: "string \<Rightarrow> string" where
  "strip s = rev (dropWhile isspace (rev (dropWhile isspace s)))"

text \<open>Values handed to the driver as statement parameters, and Python's \<open>str()\<close> of them.\<close>

datatype pyval = PyInt int | PyStr string | PyDate nat

function digits10 :: "nat \<Rightarrow> string" where
  "digits10 n = (if n < 10 then [hexdigit n] else digits10 (n div 10) @ [hexdigit (n mod 10)])"
  by pat_completeness auto
termination
  by (relation "measure (\<lambda>n. n)") auto

declare digits10.simps [simp del]

definition str_int :: "int \<Rightarrow> string" where
  "str_int i = (if i < 0 then CHR ''-'' # digits10 (nat (- i)) else digits10 (nat i))"

text \<open>
  \<open>str(row_id)\<close> in \<open>audit_log\<close>: the callers pass a row key (an integer) or the
  empty string. A date prints as ISO text, which no caller of \<open>audit_log\<close> passes; the
  model writes its day number.
\<close>

fun str :: "pyval \<Rightarrow> string" where
  "str (PyInt i) = str_int i"
| "str (PyStr s) = s"
| "str (PyDate d) = digits10 d"

section \<open>The database\<close>

text \<open>
  The tables the application creates itself (\<open>ensure_app_users_table\<close>,
  \<open>ensure_audit_log_table\<close>), as lists of rows in insertion order. A nullable column
  that the code tests for \<open>None\<close> is an option.
\<close>

record app_user_row =
  app_user_id :: int
  username :: string
  role :: string
  password_hash :: "string option"
  salt :: "string option"
  created_at :: nat

record audit_row =
  audit_id :: int
  log_app_user_id :: "int option"
  log_username :: string
  action :: string
  table_name :: string
  row_id :: string
  details :: string
  log_created_at :: nat

text \<open>A row of \<open>information_schema.parameters\<close>, with the columns the probe reads.\<close>

record parameter_row =
  specific_schema :: string
  specific_name :: string
  parameter_mode :: "string option"

text \<open>
  The world the application runs in: the two application tables with their
  \<open>AUTO_INCREMENT\<close> counters, the catalog, the business tables (every other table;
  their schema is not created by the application and they stay opaque, of type \<open>'b\<close>),
  the server's clock in seconds (\<open>CURRENT_TIMESTAMP\<close>), and
  \<open>st.session_state["app_user"]\<close>.

  The application holds one cached connection, and the driver does not commit by itself:
  \<open>business\<close> is what is committed, \<open>uncommitted\<close> the business tables as the
  connection's open transaction has left them, if it has changed them. The application
  tables are only written by \<open>run_modification\<close>, which commits or rolls back before it
  returns, so they need no second copy.
\<close>

record 'b world =
  app_users :: "app_user_row list"
  app_users_auto :: int
  audit_log_rows :: "audit_row list"
  audit_log_auto :: int
  parameters :: "parameter_row list"
  business :: 'b
  uncommitted :: "'b option"
  clock :: nat
  app_user :: "app_user_row option"

text \<open>
  What happens to one round trip to the server, decided outside the program:
  \<open>Up\<close>, the statement reaches the server and the server runs it; \<open>Down\<close>,
  \<open>get_db_conn\<close> returns \<open>None\<close>; \<open>Faulty\<close>, there is a connection object but
  \<open>cur.execute\<close> raises (server gone, timeout, missing privilege).
\<close>

datatype link = Up | Down | Faulty

subsection \<open>The statements the application sends\<close>

text \<open>
  A statement is its effect on the world, \<open>None\<close> when the server rejects it. The server
  is taken in its default strict mode: a value longer than its \<open>VARCHAR\<close> column is an
  error. Usernames are compared as the spec states, by equality of strings.
\<close>

definition insert_app_user ::
  "string \<Rightarrow> string \<Rightarrow> string \<Rightarrow> string \<Rightarrow> 'b world \<Rightarrow> 'b world option" where
  "insert_app_user u r h s w =
     (if 100 < length u \<or> 50 < length r \<or> 128 < length h \<or> 64 < length s then None
      else if u \<in> set (map username (app_users w)) then None
      else Some (w\<lparr>app_users := app_users w @
                    [\<lparr>app_user_id = app_users_auto w, username = u, role = r,
                      password_hash = Some h, salt = Some s, created_at = clock w\<rparr>],
                  app_users_auto := app_users_auto w + 1\<rparr>))"

definition insert_audit_log ::
  "int option \<Rightarrow> string \<Rightarrow> string \<Rightarrow> string \<Rightarrow> string \<Rightarrow> string \<Rightarrow> 'b world \<Rightarrow> 'b world option" where
  "insert_audit_log uid u a t r d w =
     (if 100 < length u \<or> 100 < length a \<or> 100 < length t \<or> 100 < length r
         \<or> 65535 < length (encode d) then None
      else Some (w\<lparr>audit_log_rows := audit_log_rows w @
                    [\<lparr>audit_id = audit_log_auto w, log_app_user_id = uid, log_username = u,
                      action = a, table_name = t, row_id = r, details = d,
                      log_created_at = clock w\<rparr>],
                  audit_log_auto := audit_log_auto w + 1\<rparr>))"

text \<open>
  Every other \<open>INSERT\<close>, \<open>UPDATE\<close> and \<open>DELETE\<close> of the application names a business
  table; its effect \<open>f\<close> on the business tables is the server's.
\<close>

definition view :: "'b world \<Rightarrow> 'b" where
  "view w = (case uncommitted w of Some b \<Rightarrow> b | None \<Rightarrow> business w)"

definition commit :: "'b world \<Rightarrow> 'b world" where
  "commit w = w\<lparr>business := view w, uncommitted := None\<rparr>"

definition rollback :: "'b world \<Rightarrow> 'b world" where
  "rollback w = w\<lparr>uncommitted := None\<rparr>"

definition business_stmt :: "('b \<Rightarrow> 'b option) \<Rightarrow> 'b world \<Rightarrow> 'b world option" where
  "business_stmt f w =
     (case f (view w) of None \<Rightarrow> None | Some b \<Rightarrow> Some (w\<lparr>uncommitted := Some b\<rparr>))"

definition select_app_users_by_username :: "string \<Rightarrow> 'b world \<Rightarrow> app_user_row list" where
  "select_app_users_by_username u w = filter (\<lambda>row. username row = u) (app_users w)"

definition count_parameters :: "string \<Rightarrow> string \<Rightarrow> 'b world \<Rightarrow> int list" where
  "count_parameters db proc_name w =
     [int (length (filter (\<lambda>p. specific_schema p = db \<and> specific_name p = proc_name
          \<and> parameter_mode p \<in> {Some ''IN'', Some ''INOUT''}) (parameters w)))]"

subsection \<open>DB helpers\<close>

text \<open>
  \<open>run_query\<close> returns a data frame, here the list of its rows; without a connection and
  when the query raises it returns the empty frame.
\<close>

definition run_query :: "link \<Rightarrow> ('b world \<Rightarrow> 'r list) \<Rightarrow> 'b world \<Rightarrow> 'r list" where
  "run_query l query w = (case l of Down \<Rightarrow> [] | Faulty \<Rightarrow> [] | Up \<Rightarrow> query w)"

text \<open>
  \<open>run_modification\<close> commits and returns \<open>True\<close>, or rolls back and returns
  \<open>False\<close>.
\<close>

definition run_modification ::
  "link \<Rightarrow> ('b world \<Rightarrow> 'b world option) \<Rightarrow> 'b world \<Rightarrow> bool \<times> 'b world" where
  "run_modification l query w =
     (case l of
        Down \<Rightarrow> (False, w)
      | Faulty \<Rightarrow> (False, rollback w)
      | Up \<Rightarrow> (case query w of Some w' \<Rightarrow> (True, commit w') | None \<Rightarrow> (False, rollback w)))"

text \<open>
  \<open>call_proc\<close> runs a stored routine and does not commit. The routines are the server's
  and act on the business tables: \<open>routines name params\<close> takes the committed tables
  and the open transaction to what the call leaves of them (a routine may commit or roll
  back by itself), with the result sets, or \<open>None\<close> when the call raises.
\<close>

type_synonym ('b, 'r) routines =
  "string \<Rightarrow> pyval list \<Rightarrow> 'b \<times> 'b option \<Rightarrow> ('b \<times> 'b option) \<times> 'r option"

definition call_proc ::
  "link \<Rightarrow> ('b, 'r) routines
     \<Rightarrow> string \<Rightarrow> pyval list \<Rightarrow> 'b world \<Rightarrow> 'r option \<times> 'b world" where
  "call_proc l routines proc_name params w =
     (case l of
        Down \<Rightarrow> (None, w)
      | Faulty \<Rightarrow> (None, w)
      | Up \<Rightarrow> (let ((b, u), results) = routines proc_name params (business w, uncommitted w)
               in (results, w\<lparr>business := b, uncommitted := u\<rparr>)))"

text \<open>
  \<open>get_proc_param_count\<close>: the query is a \<open>COUNT(*)\<close>, whose answer has one row; the
  frame is empty only when \<open>run_query\<close> failed. The \<open>int(...)\<close> of a count does not raise.
\<close>

definition get_proc_param_count :: "link \<Rightarrow> string \<Rightarrow> string \<Rightarrow> 'b world \<Rightarrow> int option" where
  "get_proc_param_count l database proc_name w =
     (case run_query l (count_parameters database proc_name) w of
        [] \<Rightarrow> None
      | cnt # _ \<Rightarrow> Some cnt)"

section \<open>Security: password hashing\<close>

definition make_salt :: "(nat \<Rightarrow> byte) \<Rightarrow> string" where
  "make_salt src = hexlify (os_urandom src 16)"

definition hash_password :: "sha256_fn \<Rightarrow> string \<Rightarrow> string \<Rightarrow> string" where
  "hash_password sha256 password slt = hexdigest (sha256 (encode (slt @ password)))"

definition create_app_user ::
  "sha256_fn \<Rightarrow> (nat \<Rightarrow> byte) \<Rightarrow> link \<Rightarrow> string \<Rightarrow> string \<Rightarrow> string
     \<Rightarrow> 'b world \<Rightarrow> bool \<times> 'b world" where
  "create_app_user sha256 src l uname rl password w =
     (let slt = make_salt src;
          phash = hash_password sha256 password slt
      in run_modification l (insert_app_user uname rl phash slt) w)"

definition authenticate_user ::
  "sha256_fn \<Rightarrow> link \<Rightarrow> string \<Rightarrow> string \<Rightarrow> 'b world \<Rightarrow> app_user_row option" where
  "authenticate_user sha256 l uname password w =
     (case run_query l (select_app_users_by_username uname) w of
        [] \<Rightarrow> None
      | row # _ \<Rightarrow>
          (case salt row of
             None \<Rightarrow> None
           | Some slt \<Rightarrow>
               (case password_hash row of
                  None \<Rightarrow> None
                | Some stored \<Rightarrow>
                    if hash_password sha256 password slt = stored then Some row else None)))"

section \<open>Audit logging\<close>

text \<open>\<open>audit_log\<close> returns nothing: what \<open>run_modification\<close> answers is dropped.\<close>

definition audit_log ::
  "link \<Rightarrow> int option \<Rightarrow> string \<Rightarrow> string \<Rightarrow> string \<Rightarrow> pyval \<Rightarrow> string \<Rightarrow> 'b world \<Rightarrow> 'b world" where
  "audit_log l uid uname act tbl rid det w =
     snd (run_modification l (insert_audit_log uid uname act tbl (str rid) det) w)"

section \<open>Session and login\<close>

text \<open>
  What a handler writes on the page (\<open>st.success\<close>, \<open>st.error\<close>, \<open>st.warning\<close>),
  and an exception no handler catches.
\<close>

datatype notice = Success string | Error string | Warning string | Traceback string

definition login_user ::
  "sha256_fn \<Rightarrow> link \<Rightarrow> string \<Rightarrow> string \<Rightarrow> 'b world \<Rightarrow> (bool \<times> notice) \<times> 'b world" where
  "login_user sha256 l uname password w =
     (case authenticate_user sha256 l uname password w of
        Some user \<Rightarrow>
          ((True, Success (''Logged in as '' @ uname @ '' ('' @ role user @ '')'')),
           w\<lparr>app_user := Some user\<rparr>)
      | None \<Rightarrow> ((False, Error ''Invalid username or password''), w))"

definition logout :: "'b world \<Rightarrow> 'b world" where
  "logout w = w\<lparr>app_user := None\<rparr>"

definition current_role :: "'b world \<Rightarrow> string option" where
  "current_role w = (case app_user w of Some user \<Rightarrow> Some (role user) | None \<Rightarrow> None)"

definition current_user_id :: "'b world \<Rightarrow> int option" where
  "current_user_id w = (case app_user w of Some user \<Rightarrow> Some (app_user_id user) | None \<Rightarrow> None)"

section \<open>Pages\<close>

text \<open>
  Every button of the pages that changes a business table has one shape: the statement
  goes through \<open>run_modification\<close>, and when that answers \<open>True\<close> the handler reports
  success and calls \<open>audit_log\<close> with \<open>st.session_state['app_user']['username']\<close>, which
  raises when nobody is logged in. \<open>l1\<close> is the link of the statement, \<open>l2\<close> the link of
  the audit insert.
\<close>

definition modify_and_audit ::
  "link \<Rightarrow> link \<Rightarrow> ('b \<Rightarrow> 'b option) \<Rightarrow> string \<Rightarrow> string \<Rightarrow> string \<Rightarrow> pyval \<Rightarrow> string
     \<Rightarrow> 'b world \<Rightarrow> notice list \<times> 'b world" where
  "modify_and_audit l1 l2 stmt done act tbl rid det w =
     (let (ok, w1) = run_modification l1 (business_stmt stmt) w
      in if ok then
           (case app_user w1 of
              None \<Rightarrow> ([Success done, Traceback ''TypeError''], w1)
            | Some user \<Rightarrow>
                ([Success done], audit_log l2 (current_user_id w1) (username user) act tbl rid det w1))
         else ([], w1))"

text \<open>Items page, form \<open>create_item\<close>: shown to the role \<open>admin\<close> only.\<close>

definition create_item_submit ::
  "link \<Rightarrow> link \<Rightarrow> ('b \<Rightarrow> 'b option) \<Rightarrow> string \<Rightarrow> 'b world \<Rightarrow> notice list \<times> 'b world" where
  "create_item_submit l1 l2 insert_item name w =
     (if current_role w = Some ''admin''
      then modify_and_audit l1 l2 insert_item ''Item created.''
             ''CREATE_ITEM'' ''Clothing_Items'' (PyStr []) name w
      else ([], w))"

text \<open>Sales page, form \<open>proc_sale\<close>: the argument tuple is chosen from the probed count.\<close>

definition proc_sale_params ::
  "int option \<Rightarrow> nat \<Rightarrow> int \<Rightarrow> int \<Rightarrow> int \<Rightarrow> string \<Rightarrow> pyval list" where
  "proc_sale_params cnt sale_date sel_item sel_store qty payment =
     (case cnt of
        None \<Rightarrow> [PyInt sel_item, PyInt sel_store, PyInt qty, PyStr payment]
      | Some c \<Rightarrow>
          if 5 \<le> c then [PyDate sale_date, PyInt sel_store, PyInt sel_item, PyInt qty, PyStr payment]
          else [PyInt sel_item, PyInt sel_store, PyInt qty, PyStr payment])"

definition proc_sale_submit ::
  "link \<Rightarrow> link \<Rightarrow> link \<Rightarrow> string \<Rightarrow> ('b, 'r) routines \<Rightarrow> nat
     \<Rightarrow> int \<Rightarrow> int \<Rightarrow> int \<Rightarrow> string \<Rightarrow> 'b world \<Rightarrow> notice list \<times> 'b world" where
  "proc_sale_submit l1 l2 l3 database routines today sel_item sel_store qty payment w =
     (let cnt = get_proc_param_count l1 database ''ProcessSale'' w;
          warned = (if cnt = None
                    then [Warning ''Could not determine ProcessSale parameter count; attempting 4-arg call.'']
                    else []);
          params = proc_sale_params cnt today sel_item sel_store qty payment;
          (res, w1) = call_proc l2 routines ''ProcessSale'' params w
      in case res of
           None \<Rightarrow> (warned, w1)
         | Some _ \<Rightarrow>
             (case app_user w1 of
                None \<Rightarrow>
                  (warned @ [Success ''ProcessSale invoked. Check Sales and Inventory.'',
                             Traceback ''TypeError''], w1)
              | Some user \<Rightarrow>
                  (warned @ [Success ''ProcessSale invoked. Check Sales and Inventory.''],
                   audit_log l3 (current_user_id w1) (username user) ''PROCESS_SALE'' ''Sales''
                     (PyStr [])
                     (''item='' @ str_int sel_item @ '',store='' @ str_int sel_store
                        @ '',qty='' @ str_int qty) w1)))"

text \<open>Admin page, form \<open>create_app_user\<close>: shown to the role \<open>admin\<close> only.\<close>

definition create_app_user_submit ::
  "sha256_fn \<Rightarrow> (nat \<Rightarrow> byte) \<Rightarrow> link \<Rightarrow> link \<Rightarrow> string \<Rightarrow> string \<Rightarrow> string
     \<Rightarrow> 'b world \<Rightarrow> notice list \<times> 'b world" where
  "create_app_user_submit sha256 src l1 l2 uname role_sel pw w =
     (case app_user w of
        None \<Rightarrow> ([Warning ''Only Admins can manage app users. Login as an admin to create app users.''], w)
      | Some user \<Rightarrow>
          if role user \<noteq> ''admin''
          then ([Warning ''Only Admins can manage app users. Login as an admin to create app users.''], w)
          else if length (strip uname) = 0 \<or> length (strip pw) < 4
          then ([Error ''Username non-empty and password >= 4 chars''], w)
          else (let (ok, w1) = create_app_user sha256 src l1 (strip uname) role_sel (strip pw) w
                in if ok then
                     ([Success ''App user created.''],
                      audit_log l2 (Some (app_user_id user)) (username user)
                        ''CREATE_APP_USER'' ''app_users'' (PyStr []) uname w1)
                   else ([], w1)))"

section \<open>The command-line bootstrap\<close>

text \<open>
  \<open>create_admin.py\<close> opens a connection of its own, outside the \<open>try\<close>: without a
  server the script ends in the driver's exception. It prints one line otherwise. An
  insert that raises is not committed, and the connection is closed.
\<close>

datatype console = Printed string | Raised

definition create_admin ::
  "sha256_fn \<Rightarrow> (nat \<Rightarrow> byte) \<Rightarrow> link \<Rightarrow> string \<Rightarrow> string \<Rightarrow> 'b world
     \<Rightarrow> console \<times> 'b world" where
  "create_admin sha256 src l uname password w =
     (let slt = make_salt src;
          phash = hash_password sha256 password slt
      in case l of
           Down \<Rightarrow> (Raised, w)
         | Faulty \<Rightarrow> (Printed ''Error:'', w)
         | Up \<Rightarrow> (case insert_app_user uname ''admin'' phash slt w of
                    Some w' \<Rightarrow> (Printed ''Admin user created.'', w')
                  | None \<Rightarrow> (Printed ''Error:'', w)))"

definition create_admin_main ::
  "sha256_fn \<Rightarrow> (nat \<Rightarrow> byte) \<Rightarrow> link \<Rightarrow> string \<Rightarrow> string \<Rightarrow> 'b world
     \<Rightarrow> console \<times> 'b world" where
  "create_admin_main sha256 src l typed_name typed_password w =
     (let uname = strip typed_name; pw = strip typed_password
      in if length uname = 0 \<or> length pw < 4 then (Printed ''Invalid input.'', w)
         else create_admin sha256 src l uname pw w)"

section \<open>The program as a state machine\<close>

text \<open>
  One step of the running system: a button of the application, a run of the bootstrap
  script, or the passing of time. \<open>Select\<close> stands for every read (\<open>run_query\<close>,
  \<open>call_function_sql_scalar\<close>, the SQL runner, which refuses text that does not start
  with \<open>select\<close>): a read leaves the world as it is. Stored routines and triggers are the
  server's and act on the business tables.
\<close>

datatype ('b, 'r) operation =
    Login link string string
  | Logout
  | Select
  | Modify link link "'b \<Rightarrow> 'b option" string string string pyval string
  | CreateItem link link "'b \<Rightarrow> 'b option" string
  | ProcSale link link link nat int int int string
  | CreateAppUser "nat \<Rightarrow> byte" link link string string string
  | Bootstrap "nat \<Rightarrow> byte" link string string
  | Record link "int option" string string string pyval string
  | Tick nat

fun step ::
  "sha256_fn \<Rightarrow> string \<Rightarrow> ('b, 'r) routines
     \<Rightarrow> ('b, 'r) operation \<Rightarrow> 'b world \<Rightarrow> 'b world" where
  "step sha256 database routines (Login l uname password) w =
     snd (login_user sha256 l uname password w)"
| "step sha256 database routines Logout w = logout w"
| "step sha256 database routines Select w = w"
| "step sha256 database routines (Modify l1 l2 stmt done act tbl rid det) w =
     snd (modify_and_audit l1 l2 stmt done act tbl rid det w)"
| "step sha256 database routines (CreateItem l1 l2 insert_item name) w =
     snd (create_item_submit l1 l2 insert_item name w)"
| "step sha256 database routines (ProcSale l1 l2 l3 today sel_item sel_store qty payment) w =
     snd (proc_sale_submit l1 l2 l3 database routines today sel_item sel_store qty payment w)"
| "step sha256 database routines (CreateAppUser src l1 l2 uname role_sel pw) w =
     snd (create_app_user_submit sha256 src l1 l2 uname role_sel pw w)"
| "step sha256 database routines (Bootstrap src l typed_name typed_password) w =
     snd (create_admin_main sha256 src l typed_name typed_password w)"
| "step sha256 database routines (Record l uid uname act tbl rid det) w =
     audit_log l uid uname act tbl rid det w"
| "step sha256 database routines (Tick n) w = w\<lparr>clock := clock w + n\<rparr>"

fun run ::
  "sha256_fn \<Rightarrow> string \<Rightarrow> ('b, 'r) routines
     \<Rightarrow> ('b, 'r) operation list \<Rightarrow> 'b world \<Rightarrow> 'b world" where
  "run sha256 database routines [] w = w"
| "run sha256 database routines (x # xs) w =
     run sha256 database routines xs (step sha256 database routines x w)"

text \<open>
  What the server guarantees of the audit table: every key is below the
  \<open>AUTO_INCREMENT\<close> counter, and no row is stamped later than the clock reads.
\<close>

definition audit_ok :: "'b world \<Rightarrow> bool" where
  "audit_ok w = (\<forall>r \<in> set (audit_log_rows w).
     audit_id r < audit_log_auto w \<and> log_created_at r \<le> clock w)"

text \<open>
  \<open>audit_untouched\<close>: a step that does not reach the audit table, its counter or the
  clock. \<open>audit_extends\<close>: a step that at most adds rows at the end of the audit table,
  and keeps what the server guarantees of it.
\<close>

definition audit_untouched :: "'b world \<Rightarrow> 'b world \<Rightarrow> bool" where
  "audit_untouched w w' =
     (audit_log_rows w' = audit_log_rows w \<and> audit_log_auto w' = audit_log_auto w
      \<and> clock w' = clock w)"

definition audit_extends :: "'b world \<Rightarrow> 'b world \<Rightarrow> bool" where
  "audit_extends w w' =
     (prefix (audit_log_rows w) (audit_log_rows w') \<and> (audit_ok w \<longrightarrow> audit_ok w'))"

section \<open>Sample data\<close>

text \<open>
  A small installation on which the theorems below are exercised. The business tables
  are one number, the units of the one item in stock. The entropy source delivers the
  bytes 0, 1, 2, ...; \<open>sample_sha256\<close> is SHA-256 on the two messages the examples hash
  (the digests \<open>hashlib\<close> computes for them) and zero elsewhere.
\<close>

definition sample_src :: "nat \<Rightarrow> byte" where
  "sample_src i = of_nat i"

definition sample_sha256 :: sha256_fn where
  "sample_sha256 m =
     (if m = encode ''000102030405060708090a0b0c0d0e0fpass1234''
      then 0xe97cc2c3450d30a22146ccbf69f74289f5166352f5ac79fc65f9f4b64552c3e1
      else if m = encode ''000102030405060708090a0b0c0d0e0fwrong''
      then 0xdc3f14cac0ef8e9f1c7c71437ed665a125db54b05263fa029a280118957cb46f
      else 0)"

text \<open>
  The server has one routine, \<open>ProcessSale(p_sale_date, p_store_id, p_item_id,
  p_quantity, p_payment)\<close>, which takes the quantity out of the stock inside the open
  transaction and does not commit.
\<close>

definition sample_parameters :: "parameter_row list" where
  "sample_parameters = replicate 5
     \<lparr>specific_schema = ''fashion_business'', specific_name = ''ProcessSale'',
      parameter_mode = Some ''IN''\<rparr>"

definition sample_routines :: "(int, unit) routines" where
  "sample_routines name params tables =
     (case (name = ''ProcessSale'', params) of
        (True, [PyDate d, PyInt store, PyInt item, PyInt qty, PyStr payment]) \<Rightarrow>
          (case tables of
             (b, None) \<Rightarrow> ((b, Some (b - qty)), Some ())
           | (b, Some u) \<Rightarrow> ((b, Some (u - qty)), Some ()))
      | _ \<Rightarrow> (tables, None))"

definition fresh_world :: "int world" where
  "fresh_world = \<lparr>app_users = [], app_users_auto = 1, audit_log_rows = [], audit_log_auto = 1,
     parameters = sample_parameters, business = 10, uncommitted = None, clock = 0,
     app_user = None\<rparr>"

definition alice :: app_user_row where
  "alice = \<lparr>app_user_id = 1, username = ''alice'', role = ''manager'',
     password_hash =
       Some (hexdigest 0xe97cc2c3450d30a22146ccbf69f74289f5166352f5ac79fc65f9f4b64552c3e1),
     salt = Some ''000102030405060708090a0b0c0d0e0f'', created_at = 0\<rparr>"

definition alice_world :: "int world" where
  "alice_world = fresh_world\<lparr>app_users := [alice], app_users_auto := 2\<rparr>"

text \<open>The same installation later: alice is logged in and one action of hers is on record.\<close>

definition audited_world :: "int world" where
  "audited_world = alice_world\<lparr>audit_log_rows :=
       [\<lparr>audit_id = 1, log_app_user_id = Some 1, log_username = ''alice'',
         action = ''CREATE_COLLECTION'', table_name = ''Collections'', row_id = [],
         details = ''Autumn'', log_created_at = 0\<rparr>],
     audit_log_auto := 2, clock := 7, app_user := Some alice\<rparr>"

section \<open>Properties\<close>



lemma length_hexdigest: "length (hexdigest d) = 64"
  by (simp add: hexdigest_def)





subsection \<open>Helpers: statements and transactions\<close>

lemma insert_app_user_SomeD:
  assumes "insert_app_user u r h s w = Some w'"
  shows "u \<notin> set (map username (app_users w))"
    and "w' = w\<lparr>app_users := app_users w @
                    [\<lparr>app_user_id = app_users_auto w, username = u, role = r,
                      password_hash = Some h, salt = Some s, created_at = clock w\<rparr>],
                  app_users_auto := app_users_auto w + 1\<rparr>"
  using assms by (auto simp: insert_app_user_def split: if_splits)

lemma insert_app_user_taken:
  "u \<in> set (map username (app_users w)) \<Longrightarrow> insert_app_user u r h s w = None"
  by (simp add: insert_app_user_def)

lemma run_modification_TrueD:
  assumes "run_modification l q w = (True, w')"
  shows "l = Up \<and> (\<exists>w1. q w = Some w1 \<and> w' = commit w1)"
  using assms by (auto simp: run_modification_def split: link.splits option.splits)

lemma run_modification_rejected:
  "q w = None \<Longrightarrow> run_modification l q w = (False, if l = Down then w else rollback w)"
  by (cases l) (simp_all add: run_modification_def)

lemma commit_fields [simp]:
  "app_users (commit w) = app_users w"
  "app_users_auto (commit w) = app_users_auto w"
  "audit_log_rows (commit w) = audit_log_rows w"
  "audit_log_auto (commit w) = audit_log_auto w"
  "parameters (commit w) = parameters w"
  "clock (commit w) = clock w"
  "app_user (commit w) = app_user w"
  "business (commit w) = view w"
  "uncommitted (commit w) = None"
  by (simp_all add: commit_def)

lemma rollback_fields [simp]:
  "app_users (rollback w) = app_users w"
  "app_users_auto (rollback w) = app_users_auto w"
  "audit_log_rows (rollback w) = audit_log_rows w"
  "audit_log_auto (rollback w) = audit_log_auto w"
  "parameters (rollback w) = parameters w"
  "clock (rollback w) = clock w"
  "app_user (rollback w) = app_user w"
  "business (rollback w) = business w"
  "uncommitted (rollback w) = None"
  by (simp_all add: rollback_def)

lemma find_filter_Cons:
  "List.find P xs = Some x \<Longrightarrow> \<exists>rest. filter P xs = x # rest"
  by (induction xs) (auto split: if_splits)


subsection \<open>Helpers: the sample data\<close>

lemma make_salt_sample: "make_salt sample_src = ''000102030405060708090a0b0c0d0e0f''"
  by (simp add: make_salt_def os_urandom_def hexlify_def hexdigit_def sample_src_def upt_rec)

lemma sample_sha256_pass1234:
  "sample_sha256 (encode ''000102030405060708090a0b0c0d0e0fpass1234'')
     = 0xe97cc2c3450d30a22146ccbf69f74289f5166352f5ac79fc65f9f4b64552c3e1"
  by (simp add: sample_sha256_def)

lemma sample_messages_differ:
  "encode ''000102030405060708090a0b0c0d0e0fwrong''
     \<noteq> encode ''000102030405060708090a0b0c0d0e0fpass1234''"
proof
  assume "encode ''000102030405060708090a0b0c0d0e0fwrong''
     = encode ''000102030405060708090a0b0c0d0e0fpass1234''"
  then have "length (encode ''000102030405060708090a0b0c0d0e0fwrong'')
     = length (encode ''000102030405060708090a0b0c0d0e0fpass1234'')"
    by simp
  then show False by (simp add: encode_def)
qed

lemma sample_sha256_wrong:
  "sample_sha256 (encode ''000102030405060708090a0b0c0d0e0fwrong'')
     = 0xdc3f14cac0ef8e9f1c7c71437ed665a125db54b05263fa029a280118957cb46f"
  by (simp add: sample_sha256_def sample_messages_differ)

lemma sample_digests_differ:
  "hexdigest 0xdc3f14cac0ef8e9f1c7c71437ed665a125db54b05263fa029a280118957cb46f
     \<noteq> hexdigest 0xe97cc2c3450d30a22146ccbf69f74289f5166352f5ac79fc65f9f4b64552c3e1"
proof
  assume "hexdigest 0xdc3f14cac0ef8e9f1c7c71437ed665a125db54b05263fa029a280118957cb46f
     = hexdigest 0xe97cc2c3450d30a22146ccbf69f74289f5166352f5ac79fc65f9f4b64552c3e1"
  then have "hexdigest 0xdc3f14cac0ef8e9f1c7c71437ed665a125db54b05263fa029a280118957cb46f ! 0
     = hexdigest 0xe97cc2c3450d30a22146ccbf69f74289f5166352f5ac79fc65f9f4b64552c3e1 ! 0"
    by simp
  then show False
    by (simp add: hexdigest_def hexdigit_def)
qed

lemma register_alice:
  "create_app_user sample_sha256 sample_src Up ''alice'' ''manager'' ''pass1234'' fresh_world
     = (True, alice_world)"
  by (simp add: create_app_user_def make_salt_sample hash_password_def sample_sha256_pass1234
      run_modification_def insert_app_user_def fresh_world_def alice_world_def alice_def
      commit_def view_def length_hexdigest)


subsection \<open>Registration and authentication\<close>

text \<open>
  C1. When \<open>create_app_user\<close> (register) has answered \<open>True\<close>, \<open>authenticate_user\<close> with
  the same username and password on the world it left, over a working link, returns a
  credential, and that credential carries the username and the role given at registration.
\<close>

theorem register_then_authenticate:
  assumes "create_app_user sha256 src l uname rl password w = (True, w')"
  shows "\<exists>row. authenticate_user sha256 Up uname password w' = Some row
           \<and> username row = uname \<and> role row = rl"
proof -
  define slt where "slt = make_salt src"
  define h where "h = hash_password sha256 password slt"
  from assms have "run_modification l (insert_app_user uname rl h slt) w = (True, w')"
    by (simp add: create_app_user_def slt_def h_def Let_def)
  then obtain w1 where ins: "insert_app_user uname rl h slt w = Some w1" and w': "w' = commit w1"
    using run_modification_TrueD by blast
  have fresh: "uname \<notin> set (map username (app_users w))"
    by (rule insert_app_user_SomeD(1) [OF ins])
  have w1: "w1 = w\<lparr>app_users := app_users w @
                    [\<lparr>app_user_id = app_users_auto w, username = uname, role = rl,
                      password_hash = Some h, salt = Some slt, created_at = clock w\<rparr>],
                  app_users_auto := app_users_auto w + 1\<rparr>"
    by (rule insert_app_user_SomeD(2) [OF ins])
  have "filter (\<lambda>r. username r = uname) (app_users w) = []"
    using fresh by (auto simp: filter_empty_conv)
  then have sel: "select_app_users_by_username uname w' =
      [\<lparr>app_user_id = app_users_auto w, username = uname, role = rl,
        password_hash = Some h, salt = Some slt, created_at = clock w\<rparr>]"
    by (simp add: select_app_users_by_username_def w' w1)
  show ?thesis
    by (simp add: authenticate_user_def run_query_def sel h_def)
qed

theorem register_then_authenticate_witness:
  "create_app_user sample_sha256 sample_src Up ''alice'' ''manager'' ''pass1234'' fresh_world
     = (True, alice_world)
   \<and> (\<exists>row. authenticate_user sample_sha256 Up ''alice'' ''pass1234'' alice_world = Some row
           \<and> username row = ''alice'' \<and> role row = ''manager'')"
  using register_alice register_then_authenticate [OF register_alice] by simp

text \<open>
  C2. \<open>authenticate_user\<close> returns \<open>None\<close> for a username no row carries, and returns
  \<open>None\<close> for a username whose row stores a digest other than the one recomputed from
  the supplied password; \<open>login_user\<close> answers both with the same value, \<open>False\<close> and
  the one message, and leaves the world as it was.
\<close>

theorem authenticate_invalid_credentials:
  assumes unknown: "uname1 \<notin> set (map username (app_users w))"
    and known: "List.find (\<lambda>r. username r = uname2) (app_users w) = Some row"
    and stored: "salt row = Some slt" "password_hash row = Some digest"
    and mismatch: "hash_password sha256 password2 slt \<noteq> digest"
  shows "authenticate_user sha256 l uname1 password1 w = None
       \<and> authenticate_user sha256 l uname2 password2 w = None
       \<and> login_user sha256 l uname1 password1 w
           = ((False, Error ''Invalid username or password''), w)
       \<and> login_user sha256 l uname2 password2 w
           = ((False, Error ''Invalid username or password''), w)"
proof -
  have "filter (\<lambda>r. username r = uname1) (app_users w) = []"
    using unknown by (auto simp: filter_empty_conv)
  then have a1: "authenticate_user sha256 l uname1 password1 w = None"
    by (cases l) (simp_all add: authenticate_user_def run_query_def select_app_users_by_username_def)
  obtain rest where "filter (\<lambda>r. username r = uname2) (app_users w) = row # rest"
    using find_filter_Cons [OF known] by blast
  then have a2: "authenticate_user sha256 l uname2 password2 w = None"
    using stored mismatch
    by (cases l) (simp_all add: authenticate_user_def run_query_def select_app_users_by_username_def)
  show ?thesis
    by (simp add: a1 a2 login_user_def)
qed

theorem authenticate_invalid_credentials_witness:
  "authenticate_user sample_sha256 Up ''bob'' ''pass1234'' alice_world = None
   \<and> authenticate_user sample_sha256 Up ''alice'' ''wrong'' alice_world = None
   \<and> login_user sample_sha256 Up ''bob'' ''pass1234'' alice_world
       = ((False, Error ''Invalid username or password''), alice_world)
   \<and> login_user sample_sha256 Up ''alice'' ''wrong'' alice_world
       = ((False, Error ''Invalid username or password''), alice_world)"
proof -
  have unknown: "''bob'' \<notin> set (map username (app_users alice_world))"
    by (simp add: alice_world_def alice_def)
  have known: "List.find (\<lambda>r. username r = ''alice'') (app_users alice_world) = Some alice"
    by (simp add: alice_world_def alice_def)
  have s: "salt alice = Some ''000102030405060708090a0b0c0d0e0f''"
    by (simp add: alice_def)
  have d: "password_hash alice
      = Some (hexdigest 0xe97cc2c3450d30a22146ccbf69f74289f5166352f5ac79fc65f9f4b64552c3e1)"
    by (simp add: alice_def)
  have mismatch: "hash_password sample_sha256 ''wrong'' ''000102030405060708090a0b0c0d0e0f''
      \<noteq> hexdigest 0xe97cc2c3450d30a22146ccbf69f74289f5166352f5ac79fc65f9f4b64552c3e1"
    by (simp add: hash_password_def sample_sha256_wrong sample_digests_differ)
  show ?thesis
    by (rule authenticate_invalid_credentials [OF unknown known s d mismatch])
qed






text \<open>
  C5. \<open>create_app_user\<close> with a username that a stored credential already carries
  answers \<open>False\<close>, and the credential table is what it was: no row is added, and no
  field of an existing row changes.
\<close>

theorem register_username_taken:
  assumes "uname \<in> set (map username (app_users w))"
  shows "fst (create_app_user sha256 src l uname rl password w) = False
       \<and> app_users (snd (create_app_user sha256 src l uname rl password w)) = app_users w
       \<and> app_users_auto (snd (create_app_user sha256 src l uname rl password w))
           = app_users_auto w"
proof -
  have "create_app_user sha256 src l uname rl password w
      = (False, if l = Down then w else rollback w)"
    by (simp add: create_app_user_def Let_def run_modification_rejected
        insert_app_user_taken [OF assms])
  then show ?thesis by simp
qed

theorem register_username_taken_witness:
  "''alice'' \<in> set (map username (app_users alice_world))
   \<and> fst (create_app_user sample_sha256 sample_src Up ''alice'' ''admin'' ''hunter22''
            alice_world) = False
   \<and> app_users (snd (create_app_user sample_sha256 sample_src Up ''alice'' ''admin''
            ''hunter22'' alice_world)) = [alice]"
proof -
  have taken: "''alice'' \<in> set (map username (app_users alice_world))"
    by (simp add: alice_world_def alice_def)
  have "app_users alice_world = [alice]"
    by (simp add: alice_world_def)
  then show ?thesis
    using taken register_username_taken [OF taken, of sample_sha256 sample_src Up "''admin''"
      "''hunter22''"]
    by simp
qed

subsection \<open>The procedure-arity probe and the sale form\<close>

text \<open>
  C8. The claim is that the probe returns \<open>None\<close> for a routine the catalog does not
  list. The count query answers one row whatever the routine: on the sample installation,
  whose catalog lists \<open>ProcessSale\<close> only, the probe of another name returns 0.
\<close>

theorem probe_absent_routine_counterexample:
  "''NoSuchRoutine'' \<notin> set (map specific_name (parameters fresh_world))
   \<and> get_proc_param_count Up ''fashion_business'' ''NoSuchRoutine'' fresh_world = Some 0"
  by (simp add: get_proc_param_count_def run_query_def count_parameters_def fresh_world_def
      sample_parameters_def)

text \<open>
  C8, amended. Over a working link the probe returns the number of catalogued \<open>IN\<close> and
  \<open>INOUT\<close> parameters of the routine, which is 0 for a routine the catalog does not list;
  it returns \<open>None\<close> exactly when the lookup fails (no connection, or the query raises).
\<close>

theorem probe_counts_or_fails:
  "get_proc_param_count l database proc_name w =
     (case l of
        Up \<Rightarrow> Some (int (length (filter
                 (\<lambda>p. specific_schema p = database \<and> specific_name p = proc_name
                    \<and> (parameter_mode p = Some ''IN'' \<or> parameter_mode p = Some ''INOUT''))
                 (parameters w))))
      | Down \<Rightarrow> None
      | Faulty \<Rightarrow> None)
   \<and> (l = Up \<and> proc_name \<notin> set (map specific_name (parameters w))
        \<longrightarrow> get_proc_param_count l database proc_name w = Some 0)"
proof -
  have "filter (\<lambda>p. specific_schema p = database \<and> specific_name p = proc_name \<and> Q p)
          (parameters w) = []"
    if "proc_name \<notin> set (map specific_name (parameters w))" for Q
    using that by (auto simp: filter_empty_conv)
  then show ?thesis
    by (cases l) (simp_all add: get_proc_param_count_def run_query_def count_parameters_def)
qed

theorem probe_counts_or_fails_witness:
  "get_proc_param_count Up ''fashion_business'' ''ProcessSale'' fresh_world = Some 5
   \<and> get_proc_param_count Up ''fashion_business'' ''NoSuchRoutine'' fresh_world = Some 0
   \<and> get_proc_param_count Down ''fashion_business'' ''ProcessSale'' fresh_world = None
   \<and> get_proc_param_count Faulty ''fashion_business'' ''ProcessSale'' fresh_world = None"
  using probe_counts_or_fails [of Up "''fashion_business''" "''ProcessSale''" fresh_world]
    probe_counts_or_fails [of Up "''fashion_business''" "''NoSuchRoutine''" fresh_world]
    probe_counts_or_fails [of Down "''fashion_business''" "''ProcessSale''" fresh_world]
    probe_counts_or_fails [of Faulty "''fashion_business''" "''ProcessSale''" fresh_world]
  by (simp add: fresh_world_def sample_parameters_def)

text \<open>
  C9. The sale form calls \<open>ProcessSale\<close> once, with one of two tuples: the five values
  (sale date, store, item, quantity, payment) when the probed count is 5 or more, and the
  four values (item, store, quantity, payment) in every other case, a smaller count or no
  count. Over a working link the world the form leaves is the one that call leaves
  (followed by the audit insert when the call returned and somebody is logged in), and the
  form reports the sale exactly when the call returned; without a working link no routine
  runs. The form calls no other routine and passes no other tuple: what it does depends on
  the server's routines only through \<open>ProcessSale\<close> at that tuple.
\<close>

theorem proc_sale_dispatch:
  fixes routines :: "('b, 'r) routines"
  assumes probed: "cnt = get_proc_param_count l1 database ''ProcessSale'' w"
    and shape: "shape =
      (if \<exists>c. cnt = Some c \<and> 5 \<le> c
       then [PyDate sale_date, PyInt sel_store, PyInt sel_item, PyInt qty, PyStr payment]
       else [PyInt sel_item, PyInt sel_store, PyInt qty, PyStr payment])"
    and called: "routines ''ProcessSale'' shape (business w, uncommitted w) = ((b, u), res)"
    and left: "w1 = w\<lparr>business := b, uncommitted := u\<rparr>"
  shows "(\<forall>c. k = Some c \<and> 5 \<le> c \<longrightarrow>
       proc_sale_params k sale_date sel_item sel_store qty payment
         = [PyDate sale_date, PyInt sel_store, PyInt sel_item, PyInt qty, PyStr payment])
   \<and> (k = None \<or> (\<exists>c. k = Some c \<and> c < 5) \<longrightarrow>
       proc_sale_params k sale_date sel_item sel_store qty payment
         = [PyInt sel_item, PyInt sel_store, PyInt qty, PyStr payment])
   \<and> proc_sale_params cnt sale_date sel_item sel_store qty payment = shape
   \<and> snd (proc_sale_submit l1 Up l3 database routines sale_date sel_item sel_store qty payment w)
       = (case res of
            None \<Rightarrow> w1
          | Some x \<Rightarrow>
              (case app_user w of
                 None \<Rightarrow> w1
               | Some user \<Rightarrow>
                   audit_log l3 (Some (app_user_id user)) (username user) ''PROCESS_SALE''
                     ''Sales'' (PyStr [])
                     (''item='' @ str_int sel_item @ '',store='' @ str_int sel_store
                        @ '',qty='' @ str_int qty) w1))
   \<and> (Success ''ProcessSale invoked. Check Sales and Inventory.''
         \<in> set (fst (proc_sale_submit l1 Up l3 database routines sale_date sel_item sel_store
                        qty payment w)))
       = (res \<noteq> None)
   \<and> (l2 \<noteq> Up \<longrightarrow>
        snd (proc_sale_submit l1 l2 l3 database routines sale_date sel_item sel_store qty
               payment w) = w
        \<and> Success ''ProcessSale invoked. Check Sales and Inventory.''
            \<notin> set (fst (proc_sale_submit l1 l2 l3 database routines sale_date sel_item
                            sel_store qty payment w)))
   \<and> (\<forall>r1 r2 :: ('b, 'r) routines.
        r1 ''ProcessSale'' shape = r2 ''ProcessSale'' shape
        \<longrightarrow> proc_sale_submit l1 l2 l3 database r1 sale_date sel_item sel_store qty payment w
          = proc_sale_submit l1 l2 l3 database r2 sale_date sel_item sel_store qty payment w)"
proof -
  have shape5: "proc_sale_params (Some c) sale_date sel_item sel_store qty payment
         = [PyDate sale_date, PyInt sel_store, PyInt sel_item, PyInt qty, PyStr payment]"
    if "5 \<le> c" for c
    using that by (simp add: proc_sale_params_def)
  have shape4: "proc_sale_params k sale_date sel_item sel_store qty payment
         = [PyInt sel_item, PyInt sel_store, PyInt qty, PyStr payment]"
    if "k = None \<or> (\<exists>c. k = Some c \<and> c < 5)"
    using that by (auto simp: proc_sale_params_def)
  have chosen: "proc_sale_params cnt sale_date sel_item sel_store qty payment = shape"
    by (cases cnt) (simp_all add: shape proc_sale_params_def)
  have params: "proc_sale_params (get_proc_param_count l1 database ''ProcessSale'' w)
      sale_date sel_item sel_store qty payment = shape"
    using chosen by (simp add: probed)
  have up: "call_proc Up routines ''ProcessSale'' shape w = (res, w1)"
    by (simp add: call_proc_def called left)
  have user: "app_user w1 = app_user w"
    by (simp add: left)
  have world: "snd (proc_sale_submit l1 Up l3 database routines sale_date sel_item sel_store
          qty payment w)
       = (case res of
            None \<Rightarrow> w1
          | Some x \<Rightarrow>
              (case app_user w of
                 None \<Rightarrow> w1
               | Some user \<Rightarrow>
                   audit_log l3 (Some (app_user_id user)) (username user) ''PROCESS_SALE''
                     ''Sales'' (PyStr [])
                     (''item='' @ str_int sel_item @ '',store='' @ str_int sel_store
                        @ '',qty='' @ str_int qty) w1))"
    unfolding proc_sale_submit_def Let_def params up
    by (simp add: user current_user_id_def split: option.splits)
  have reported: "(Success ''ProcessSale invoked. Check Sales and Inventory.''
         \<in> set (fst (proc_sale_submit l1 Up l3 database routines sale_date sel_item sel_store
                        qty payment w)))
       = (res \<noteq> None)"
    unfolding proc_sale_submit_def Let_def params up
    by (simp add: user split: option.splits)
  have down: "call_proc l2 routines ''ProcessSale'' shape w = (None, w)" if "l2 \<noteq> Up"
    using that by (cases l2) (simp_all add: call_proc_def)
  have idle: "snd (proc_sale_submit l1 l2 l3 database routines sale_date sel_item sel_store qty
               payment w) = w
        \<and> Success ''ProcessSale invoked. Check Sales and Inventory.''
            \<notin> set (fst (proc_sale_submit l1 l2 l3 database routines sale_date sel_item
                            sel_store qty payment w))"
    if "l2 \<noteq> Up"
    unfolding proc_sale_submit_def Let_def params down [OF that]
    by simp
  have same: "proc_sale_submit l1 l2 l3 database r1 sale_date sel_item sel_store qty payment w
          = proc_sale_submit l1 l2 l3 database r2 sale_date sel_item sel_store qty payment w"
    if "r1 ''ProcessSale'' shape = r2 ''ProcessSale'' shape"
    for r1 r2 :: "('b, 'r) routines"
  proof -
    have both: "call_proc l2 r1 ''ProcessSale'' shape w = call_proc l2 r2 ''ProcessSale'' shape w"
      unfolding call_proc_def that by (rule refl)
    show ?thesis
      unfolding proc_sale_submit_def Let_def params both by (rule refl)
  qed
  from shape5 shape4 chosen world reported idle same show ?thesis
    by blast
qed

text \<open>
  On the sample installation the catalog lists five parameters and the routine takes the
  five values: the sale of 2 units goes through and is on record. When the probe fails the
  form passes four values, which that routine refuses: nothing is sold.
\<close>

theorem proc_sale_dispatch_witness:
  "get_proc_param_count Up ''fashion_business'' ''ProcessSale'' audited_world = Some 5
   \<and> proc_sale_params (Some 5) 20000 7 3 2 ''UPI''
       = [PyDate 20000, PyInt 3, PyInt 7, PyInt 2, PyStr ''UPI'']
   \<and> sample_routines ''ProcessSale'' [PyDate 20000, PyInt 3, PyInt 7, PyInt 2, PyStr ''UPI'']
        (business audited_world, uncommitted audited_world) = ((10, Some 8), Some ())
   \<and> snd (proc_sale_submit Up Up Up ''fashion_business'' sample_routines 20000 7 3 2 ''UPI''
        audited_world)
       = audit_log Up (Some 1) ''alice'' ''PROCESS_SALE'' ''Sales'' (PyStr [])
           ''item=7,store=3,qty=2'' (audited_world\<lparr>business := 10, uncommitted := Some 8\<rparr>)
   \<and> Success ''ProcessSale invoked. Check Sales and Inventory.''
       \<in> set (fst (proc_sale_submit Up Up Up ''fashion_business'' sample_routines 20000 7 3 2
                      ''UPI'' audited_world))
   \<and> get_proc_param_count Down ''fashion_business'' ''ProcessSale'' audited_world = None
   \<and> proc_sale_params None 20000 7 3 2 ''UPI'' = [PyInt 7, PyInt 3, PyInt 2, PyStr ''UPI'']
   \<and> sample_routines ''ProcessSale'' [PyInt 7, PyInt 3, PyInt 2, PyStr ''UPI'']
        (business audited_world, uncommitted audited_world) = ((10, None), None)
   \<and> snd (proc_sale_submit Down Up Up ''fashion_business'' sample_routines 20000 7 3 2 ''UPI''
        audited_world) = audited_world"
proof -
  have cnt5: "Some 5 = get_proc_param_count Up ''fashion_business'' ''ProcessSale'' audited_world"
    by (simp add: get_proc_param_count_def run_query_def count_parameters_def audited_world_def
        alice_world_def fresh_world_def sample_parameters_def)
  have shape5: "[PyDate 20000, PyInt 3, PyInt 7, PyInt 2, PyStr ''UPI''] =
      (if \<exists>c. Some (5::int) = Some c \<and> 5 \<le> c
       then [PyDate 20000, PyInt 3, PyInt 7, PyInt 2, PyStr ''UPI'']
       else [PyInt 7, PyInt 3, PyInt 2, PyStr ''UPI''])"
    by simp
  have called5: "sample_routines ''ProcessSale''
        [PyDate 20000, PyInt 3, PyInt 7, PyInt 2, PyStr ''UPI'']
        (business audited_world, uncommitted audited_world) = ((10, Some 8), Some ())"
    by (simp add: sample_routines_def audited_world_def alice_world_def fresh_world_def)
  note sold = proc_sale_dispatch [where routines = sample_routines and w = audited_world
      and cnt = "Some 5" and ?l1.0 = Up and database = "''fashion_business''"
      and shape = "[PyDate 20000, PyInt 3, PyInt 7, PyInt 2, PyStr ''UPI'']"
      and sale_date = 20000 and sel_item = 7 and sel_store = 3 and qty = 2
      and payment = "''UPI''" and b = 10 and u = "Some 8" and res = "Some ()"
      and ?w1.0 = "audited_world\<lparr>business := 10, uncommitted := Some 8\<rparr>"
      and ?l3.0 = Up and ?l2.0 = Down and k = "Some 5", OF cnt5 shape5 called5 refl]
  have cnt0: "None = get_proc_param_count Down ''fashion_business'' ''ProcessSale'' audited_world"
    by (simp add: get_proc_param_count_def run_query_def)
  have shape4: "[PyInt 7, PyInt 3, PyInt 2, PyStr ''UPI''] =
      (if \<exists>c. (None :: int option) = Some c \<and> 5 \<le> c
       then [PyDate 20000, PyInt 3, PyInt 7, PyInt 2, PyStr ''UPI'']
       else [PyInt 7, PyInt 3, PyInt 2, PyStr ''UPI''])"
    by simp
  have called4: "sample_routines ''ProcessSale'' [PyInt 7, PyInt 3, PyInt 2, PyStr ''UPI'']
        (business audited_world, uncommitted audited_world) = ((10, None), None)"
    by (simp add: sample_routines_def audited_world_def alice_world_def fresh_world_def)
  note refused = proc_sale_dispatch [where routines = sample_routines and w = audited_world
      and cnt = None and ?l1.0 = Down and database = "''fashion_business''"
      and shape = "[PyInt 7, PyInt 3, PyInt 2, PyStr ''UPI'']"
      and sale_date = 20000 and sel_item = 7 and sel_store = 3 and qty = 2
      and payment = "''UPI''" and b = 10 and u = None and res = None
      and ?w1.0 = "audited_world\<lparr>business := 10, uncommitted := None\<rparr>"
      and ?l3.0 = Up and ?l2.0 = Down and k = None, OF cnt0 shape4 called4 refl]
  have user: "app_user audited_world = Some alice" "app_user_id alice = 1"
    "username alice = ''alice''"
    by (simp_all add: audited_world_def alice_def)
  have det: "str_int 7 = ''7''" "str_int 3 = ''3''" "str_int 2 = ''2''"
    by (simp_all add: str_int_def digits10.simps hexdigit_def)
  have same: "audited_world\<lparr>business := 10, uncommitted := None\<rparr> = audited_world"
    by (simp add: audited_world_def alice_world_def fresh_world_def)
  from sold have 1: "proc_sale_params (Some 5) 20000 7 3 2 ''UPI''
       = [PyDate 20000, PyInt 3, PyInt 7, PyInt 2, PyStr ''UPI'']"
    by blast
  from sold have "snd (proc_sale_submit Up Up Up ''fashion_business'' sample_routines 20000 7 3
        2 ''UPI'' audited_world)
       = (case Some () of
            None \<Rightarrow> audited_world\<lparr>business := 10, uncommitted := Some 8\<rparr>
          | Some x \<Rightarrow>
              (case app_user audited_world of
                 None \<Rightarrow> audited_world\<lparr>business := 10, uncommitted := Some 8\<rparr>
               | Some user \<Rightarrow>
                   audit_log Up (Some (app_user_id user)) (username user) ''PROCESS_SALE''
                     ''Sales'' (PyStr [])
                     (''item='' @ str_int 7 @ '',store='' @ str_int 3 @ '',qty='' @ str_int 2)
                     (audited_world\<lparr>business := 10, uncommitted := Some 8\<rparr>)))"
    by blast
  then have 2: "snd (proc_sale_submit Up Up Up ''fashion_business'' sample_routines 20000 7 3 2
        ''UPI'' audited_world)
       = audit_log Up (Some 1) ''alice'' ''PROCESS_SALE'' ''Sales'' (PyStr [])
           ''item=7,store=3,qty=2'' (audited_world\<lparr>business := 10, uncommitted := Some 8\<rparr>)"
    by (simp add: user det)
  from sold have "(Success ''ProcessSale invoked. Check Sales and Inventory.''
       \<in> set (fst (proc_sale_submit Up Up Up ''fashion_business'' sample_routines 20000 7 3 2
                      ''UPI'' audited_world))) = (Some () \<noteq> None)"
    by blast
  then have 3: "Success ''ProcessSale invoked. Check Sales and Inventory.''
       \<in> set (fst (proc_sale_submit Up Up Up ''fashion_business'' sample_routines 20000 7 3 2
                      ''UPI'' audited_world))"
    by simp
  from refused have 4: "proc_sale_params None 20000 7 3 2 ''UPI''
       = [PyInt 7, PyInt 3, PyInt 2, PyStr ''UPI'']"
    by blast
  from refused have "snd (proc_sale_submit Down Up Up ''fashion_business'' sample_routines 20000
        7 3 2 ''UPI'' audited_world)
       = (case (None :: unit option) of
            None \<Rightarrow> audited_world\<lparr>business := 10, uncommitted := None\<rparr>
          | Some x \<Rightarrow>
              (case app_user audited_world of
                 None \<Rightarrow> audited_world\<lparr>business := 10, uncommitted := None\<rparr>
               | Some user \<Rightarrow>
                   audit_log Up (Some (app_user_id user)) (username user) ''PROCESS_SALE''
                     ''Sales'' (PyStr [])
                     (''item='' @ str_int 7 @ '',store='' @ str_int 3 @ '',qty='' @ str_int 2)
                     (audited_world\<lparr>business := 10, uncommitted := None\<rparr>)))"
    by blast
  then have 5: "snd (proc_sale_submit Down Up Up ''fashion_business'' sample_routines 20000 7 3
        2 ''UPI'' audited_world) = audited_world"
    by (simp add: same)
  from cnt5 [symmetric] 1 called5 2 3 cnt0 [symmetric] 4 called4 5 show ?thesis
    by blast
qed

subsection \<open>Where the password length is checked\<close>



subsection \<open>The audit table only grows\<close>

lemma insort_key_snoc:
  "f y \<le> f x \<Longrightarrow> insort_key f y (zs @ [x]) = insort_key f y zs @ [x]"
  by (induction zs) simp_all

lemma sort_key_snoc:
  "\<forall>y \<in> set xs. f y \<le> f x \<Longrightarrow> sort_key f (xs @ [x]) = sort_key f xs @ [x]"
proof (induction xs)
  case Nil
  then show ?case by (simp add: sort_key_def)
next
  case (Cons a xs)
  then have "sort_key f (xs @ [x]) = sort_key f xs @ [x]" and "f a \<le> f x"
    by simp_all
  then show ?case
    by (simp add: sort_key_def insort_key_snoc)
qed

lemma audit_untouched_refl: "audit_untouched w w"
  by (simp add: audit_untouched_def)

lemma audit_untouched_trans:
  "audit_untouched w w1 \<Longrightarrow> audit_untouched w1 w2 \<Longrightarrow> audit_untouched w w2"
  by (simp add: audit_untouched_def)

lemma audit_untouched_extends: "audit_untouched w w' \<Longrightarrow> audit_extends w w'"
  by (simp add: audit_untouched_def audit_extends_def audit_ok_def)

lemma audit_extends_refl: "audit_extends w w"
  by (simp add: audit_extends_def)

lemma audit_extends_trans:
  "audit_extends w w1 \<Longrightarrow> audit_extends w1 w2 \<Longrightarrow> audit_extends w w2"
  by (auto simp: audit_extends_def)

lemma audit_untouched_commit: "audit_untouched w (commit w)"
  by (simp add: audit_untouched_def)

lemma audit_untouched_rollback: "audit_untouched w (rollback w)"
  by (simp add: audit_untouched_def)

lemma business_stmt_untouched:
  "business_stmt f w = Some w' \<Longrightarrow> audit_untouched w w'"
  by (auto simp: business_stmt_def audit_untouched_def split: option.splits)

lemma insert_app_user_untouched:
  "insert_app_user u r h s w = Some w' \<Longrightarrow> audit_untouched w w'"
  by (auto simp: insert_app_user_def audit_untouched_def split: if_splits)

lemma run_modification_untouched:
  assumes "\<And>w'. q w = Some w' \<Longrightarrow> audit_untouched w w'"
  shows "audit_untouched w (snd (run_modification l q w))"
proof (cases l)
  case Up
  show ?thesis
  proof (cases "q w")
    case None
    with Up show ?thesis
      by (simp add: run_modification_def audit_untouched_rollback)
  next
    case (Some w')
    with Up assms show ?thesis
      by (simp add: run_modification_def audit_untouched_def)
  qed
qed (simp_all add: run_modification_def audit_untouched_refl audit_untouched_rollback)

lemma insert_audit_log_SomeD:
  assumes "insert_audit_log uid u a t r d w = Some w'"
  shows "w' = w\<lparr>audit_log_rows := audit_log_rows w @
                    [\<lparr>audit_id = audit_log_auto w, log_app_user_id = uid, log_username = u,
                      action = a, table_name = t, row_id = r, details = d,
                      log_created_at = clock w\<rparr>],
                  audit_log_auto := audit_log_auto w + 1\<rparr>"
  using assms by (auto simp: insert_audit_log_def split: if_splits)

lemma insert_audit_log_extends:
  assumes "insert_audit_log uid u a t r d w = Some w'"
  shows "audit_extends w w'"
  unfolding insert_audit_log_SomeD [OF assms]
  by (auto simp: audit_extends_def audit_ok_def)

lemma audit_log_extends: "audit_extends w (audit_log l uid u a t rid d w)"
proof (cases l)
  case Up
  show ?thesis
  proof (cases "insert_audit_log uid u a t (str rid) d w")
    case None
    with Up show ?thesis
      by (simp add: audit_log_def run_modification_def audit_untouched_extends
          audit_untouched_rollback)
  next
    case (Some w')
    have "audit_extends w' (commit w')"
      by (rule audit_untouched_extends [OF audit_untouched_commit])
    with insert_audit_log_extends [OF Some] have "audit_extends w (commit w')"
      by (rule audit_extends_trans)
    with Up Some show ?thesis
      by (simp add: audit_log_def run_modification_def)
  qed
qed (simp_all add: audit_log_def run_modification_def audit_extends_refl
      audit_untouched_extends audit_untouched_rollback)

lemma login_user_untouched: "audit_untouched w (snd (login_user sha256 l u p w))"
  by (simp add: login_user_def audit_untouched_def split: option.splits)

lemma call_proc_untouched: "audit_untouched w (snd (call_proc l routines name params w))"
  by (cases l) (simp_all add: call_proc_def audit_untouched_def split: prod.splits)

lemma create_app_user_untouched:
  "audit_untouched w (snd (create_app_user sha256 src l u r p w))"
  unfolding create_app_user_def Let_def
  by (rule run_modification_untouched) (rule insert_app_user_untouched)

lemma modify_and_audit_extends:
  "audit_extends w (snd (modify_and_audit l1 l2 stmt done act tbl rid det w))"
proof -
  obtain ok w1 where rm: "run_modification l1 (business_stmt stmt) w = (ok, w1)"
    by (cases "run_modification l1 (business_stmt stmt) w")
  have "audit_untouched w (snd (run_modification l1 (business_stmt stmt) w))"
    by (rule run_modification_untouched) (rule business_stmt_untouched)
  with rm have first: "audit_extends w w1"
    by (simp add: audit_untouched_extends)
  show ?thesis
  proof (cases "ok \<and> app_user w1 \<noteq> None")
    case True
    then obtain user where "app_user w1 = Some user" and ok
      by auto
    with rm first audit_log_extends [of w1] show ?thesis
      by (auto simp: modify_and_audit_def intro: audit_extends_trans)
  next
    case False
    with rm first show ?thesis
      by (auto simp: modify_and_audit_def split: option.splits)
  qed
qed

lemma create_item_submit_extends:
  "audit_extends w (snd (create_item_submit l1 l2 insert_item name w))"
  by (simp add: create_item_submit_def modify_and_audit_extends audit_extends_refl)

lemma proc_sale_submit_extends:
  "audit_extends w
     (snd (proc_sale_submit l1 l2 l3 database routines today sel_item sel_store qty payment w))"
proof -
  define params where "params = proc_sale_params
      (get_proc_param_count l1 database ''ProcessSale'' w) today sel_item sel_store qty payment"
  obtain res w1 where cp: "call_proc l2 routines ''ProcessSale'' params w = (res, w1)"
    by (cases "call_proc l2 routines ''ProcessSale'' params w")
  from call_proc_untouched [of w l2 routines "''ProcessSale''" params] cp
  have first: "audit_extends w w1"
    by (simp add: audit_untouched_extends)
  show ?thesis
  proof (cases "res \<noteq> None \<and> app_user w1 \<noteq> None")
    case True
    then obtain user x where "app_user w1 = Some user" and "res = Some x"
      by auto
    with cp first audit_log_extends [of w1] show ?thesis
      by (auto simp: proc_sale_submit_def Let_def params_def [symmetric]
          intro: audit_extends_trans)
  next
    case False
    with cp first show ?thesis
      by (auto simp: proc_sale_submit_def Let_def params_def [symmetric] split: option.splits)
  qed
qed

lemma create_app_user_submit_extends:
  "audit_extends w (snd (create_app_user_submit sha256 src l1 l2 uname role_sel pw w))"
proof -
  obtain ok w1 where
    cu: "create_app_user sha256 src l1 (strip uname) role_sel (strip pw) w = (ok, w1)"
    by (cases "create_app_user sha256 src l1 (strip uname) role_sel (strip pw) w")
  from create_app_user_untouched [of w sha256 src l1 "strip uname" role_sel "strip pw"] cu
  have first: "audit_extends w w1"
    by (simp add: audit_untouched_extends)
  from first audit_log_extends [of w1] have
    "audit_extends w (audit_log l2 uid u a t rid d w1)" for uid u a t rid d
    by (rule audit_extends_trans)
  with cu first show ?thesis
    by (auto simp: create_app_user_submit_def audit_extends_refl split: option.splits)
qed

lemma create_admin_main_extends:
  "audit_extends w (snd (create_admin_main sha256 src l typed_name typed_password w))"
proof -
  have "audit_extends w (snd (create_admin sha256 src l u p w))" for u p
    by (cases l)
      (auto simp: create_admin_def Let_def audit_extends_refl audit_untouched_extends
        insert_app_user_untouched split: option.splits)
  then show ?thesis
    by (simp add: create_admin_main_def Let_def audit_extends_refl)
qed

lemma tick_extends: "audit_extends w (w\<lparr>clock := clock w + n\<rparr>)"
  by (auto simp: audit_extends_def audit_ok_def)

lemma step_extends: "audit_extends w (step sha256 database routines x w)"
proof (cases x)
  case (Login l u p)
  then show ?thesis
    by (simp add: audit_untouched_extends login_user_untouched)
next
  case Logout
  then show ?thesis
    by (simp add: logout_def audit_untouched_extends audit_untouched_def)
qed (simp_all add: audit_extends_refl modify_and_audit_extends create_item_submit_extends
      proc_sale_submit_extends create_app_user_submit_extends create_admin_main_extends
      audit_log_extends tick_extends)

lemma run_extends: "audit_extends w (run sha256 database routines xs w)"
proof (induction xs arbitrary: w)
  case Nil
  show ?case by (simp add: audit_extends_refl)
next
  case (Cons x xs)
  from step_extends Cons.IH show ?case
    unfolding run.simps by (rule audit_extends_trans)
qed

text \<open>
  C6. On a world whose audit table is as the server keeps it, an \<open>audit_log\<close> call whose
  insert is committed adds exactly one row, with the values passed, the next key and the
  clock's reading; that row comes last when the table is listed by key and when it is
  listed by creation time. Whatever operations run, in whatever order, the rows of the
  audit table stay where they are and as they are: the table after the run starts with the
  table before it.
\<close>

theorem audit_log_append_only:
  assumes "audit_ok w"
  shows "(run_modification l (insert_audit_log uid uname act tbl (str rid) det) w = (True, w') \<longrightarrow>
            audit_log l uid uname act tbl rid det w = w'
            \<and> audit_log_rows w' = audit_log_rows w @
                [\<lparr>audit_id = audit_log_auto w, log_app_user_id = uid, log_username = uname,
                  action = act, table_name = tbl, row_id = str rid, details = det,
                  log_created_at = clock w\<rparr>]
            \<and> last (sort_key audit_id (audit_log_rows w')) = last (audit_log_rows w')
            \<and> last (sort_key log_created_at (audit_log_rows w')) = last (audit_log_rows w'))
       \<and> prefix (audit_log_rows w) (audit_log_rows (run sha256 database routines ops w))
       \<and> audit_ok (run sha256 database routines ops w)"
proof -
  have recorded: "audit_log l uid uname act tbl rid det w = w'
            \<and> audit_log_rows w' = audit_log_rows w @
                [\<lparr>audit_id = audit_log_auto w, log_app_user_id = uid, log_username = uname,
                  action = act, table_name = tbl, row_id = str rid, details = det,
                  log_created_at = clock w\<rparr>]
            \<and> last (sort_key audit_id (audit_log_rows w')) = last (audit_log_rows w')
            \<and> last (sort_key log_created_at (audit_log_rows w')) = last (audit_log_rows w')"
    if ok: "run_modification l (insert_audit_log uid uname act tbl (str rid) det) w = (True, w')"
  proof -
    define new where "new = \<lparr>audit_id = audit_log_auto w, log_app_user_id = uid,
        log_username = uname, action = act, table_name = tbl, row_id = str rid, details = det,
        log_created_at = clock w\<rparr>"
    from ok obtain w1 where
      ins: "insert_audit_log uid uname act tbl (str rid) det w = Some w1" and w': "w' = commit w1"
      using run_modification_TrueD by blast
    have rows: "audit_log_rows w' = audit_log_rows w @ [new]"
      by (simp add: w' insert_audit_log_SomeD [OF ins] new_def)
    have by_id: "\<forall>r \<in> set (audit_log_rows w). audit_id r \<le> audit_id new"
      using assms by (auto simp: audit_ok_def new_def)
    have by_time: "\<forall>r \<in> set (audit_log_rows w). log_created_at r \<le> log_created_at new"
      using assms by (auto simp: audit_ok_def new_def)
    have "audit_log l uid uname act tbl rid det w = w'"
      by (simp add: audit_log_def ok)
    with rows sort_key_snoc [OF by_id] sort_key_snoc [OF by_time] show ?thesis
      by (simp add: new_def)
  qed
  from run_extends [of w sha256 database routines ops] assms
  have "prefix (audit_log_rows w) (audit_log_rows (run sha256 database routines ops w))"
    and "audit_ok (run sha256 database routines ops w)"
    by (simp_all add: audit_extends_def)
  with recorded show ?thesis
    by blast
qed

theorem audit_log_append_only_witness:
  "audit_ok audited_world
   \<and> audit_log_rows (audit_log Up (Some 1) ''alice'' ''DELETE_ITEM'' ''Clothing_Items''
         (PyInt 4) ''deleted'' audited_world)
       = audit_log_rows audited_world @
           [\<lparr>audit_id = 2, log_app_user_id = Some 1, log_username = ''alice'',
             action = ''DELETE_ITEM'', table_name = ''Clothing_Items'', row_id = ''4'',
             details = ''deleted'', log_created_at = 7\<rparr>]
   \<and> prefix (audit_log_rows audited_world)
        (audit_log_rows (run sample_sha256 ''fashion_business'' sample_routines
           [Logout, Login Up ''alice'' ''pass1234'', ProcSale Up Up Up 20000 7 3 2 ''UPI'',
            Tick 60, Record Faulty None ''alice'' ''LOGOUT'' ''app_users'' (PyStr []) []]
           audited_world))
   \<and> audit_ok (run sample_sha256 ''fashion_business'' sample_routines
           [Logout, Login Up ''alice'' ''pass1234'', ProcSale Up Up Up 20000 7 3 2 ''UPI'',
            Tick 60, Record Faulty None ''alice'' ''LOGOUT'' ''app_users'' (PyStr []) []]
           audited_world)"
proof -
  define w' where "w' = snd (run_modification Up
      (insert_audit_log (Some 1) ''alice'' ''DELETE_ITEM'' ''Clothing_Items'' (str (PyInt 4))
         ''deleted'') audited_world)"
  have ok: "audit_ok audited_world"
    by (simp add: audit_ok_def audited_world_def)
  have four: "str_int 4 = ''4''"
    by (simp add: str_int_def digits10.simps hexdigit_def)
  have "fst (run_modification Up
      (insert_audit_log (Some 1) ''alice'' ''DELETE_ITEM'' ''Clothing_Items'' (str (PyInt 4))
         ''deleted'') audited_world)"
    by (simp add: four run_modification_def insert_audit_log_def encode_def)
  then have committed: "run_modification Up
      (insert_audit_log (Some 1) ''alice'' ''DELETE_ITEM'' ''Clothing_Items'' (str (PyInt 4))
         ''deleted'') audited_world = (True, w')"
    by (simp add: w'_def prod_eq_iff)
  note inst = audit_log_append_only [OF ok, where l = Up and uid = "Some 1"
      and uname = "''alice''" and act = "''DELETE_ITEM''" and tbl = "''Clothing_Items''"
      and rid = "PyInt 4" and det = "''deleted''" and w' = w' and ?sha256.0 = sample_sha256
      and database = "''fashion_business''" and routines = sample_routines
      and ops = "[Logout, Login Up ''alice'' ''pass1234'', ProcSale Up Up Up 20000 7 3 2 ''UPI'',
            Tick 60, Record Faulty None ''alice'' ''LOGOUT'' ''app_users'' (PyStr []) []]"]
  from inst committed have
    "audit_log Up (Some 1) ''alice'' ''DELETE_ITEM'' ''Clothing_Items'' (PyInt 4) ''deleted''
        audited_world = w'"
    and "audit_log_rows w' = audit_log_rows audited_world @
           [\<lparr>audit_id = audit_log_auto audited_world, log_app_user_id = Some 1,
             log_username = ''alice'', action = ''DELETE_ITEM'', table_name = ''Clothing_Items'',
             row_id = str (PyInt 4), details = ''deleted'',
             log_created_at = clock audited_world\<rparr>]"
    by blast+
  then have recorded: "audit_log_rows (audit_log Up (Some 1) ''alice'' ''DELETE_ITEM''
         ''Clothing_Items'' (PyInt 4) ''deleted'' audited_world)
       = audit_log_rows audited_world @
           [\<lparr>audit_id = 2, log_app_user_id = Some 1, log_username = ''alice'',
             action = ''DELETE_ITEM'', table_name = ''Clothing_Items'', row_id = ''4'',
             details = ''deleted'', log_created_at = 7\<rparr>]"
    by (simp add: four) (simp add: audited_world_def)
  from inst recorded ok show ?thesis
    by blast
qed

subsection \<open>The audit write and the action that triggers it\<close>

lemma audit_log_keeps_committed:
  assumes "uncommitted w = None"
  shows "business (audit_log l uid u a t rid d w) = business w"
proof (cases l)
  case Up
  show ?thesis
  proof (cases "insert_audit_log uid u a t (str rid) d w")
    case None
    with Up show ?thesis
      by (simp add: audit_log_def run_modification_def)
  next
    case (Some w')
    with Up assms show ?thesis
      by (simp add: audit_log_def run_modification_def insert_audit_log_SomeD [OF Some]
          view_def)
  qed
qed (simp_all add: audit_log_def run_modification_def)

lemma run_modification_True_committed:
  "run_modification l q w = (True, w') \<Longrightarrow> uncommitted w' = None"
  by (auto dest: run_modification_TrueD)

text \<open>
  The buttons that go through \<open>run_modification\<close> (the item form among them) call
  \<open>audit_log\<close> after the commit: what they commit to the business tables, and what they
  report, is the same whatever happens to the audit insert.
\<close>

lemma modify_and_audit_decoupled:
  "business (snd (modify_and_audit l1 l2 stmt done act tbl rid det w))
     = business (snd (run_modification l1 (business_stmt stmt) w))
   \<and> fst (modify_and_audit l1 l2 stmt done act tbl rid det w)
     = fst (modify_and_audit l1 l2' stmt done act tbl rid det w)"
proof -
  obtain ok w1 where rm: "run_modification l1 (business_stmt stmt) w = (ok, w1)"
    by (cases "run_modification l1 (business_stmt stmt) w")
  show ?thesis
  proof (cases ok)
    case True
    with rm have "uncommitted w1 = None"
      by (simp add: run_modification_True_committed)
    then have "business (audit_log l2 uid u act tbl rid det w1) = business w1" for uid u
      by (rule audit_log_keeps_committed)
    with rm True show ?thesis
      by (simp add: modify_and_audit_def split: option.splits)
  next
    case False
    with rm show ?thesis
      by (simp add: modify_and_audit_def)
  qed
qed

text \<open>
  C7. The claim is that \<open>audit_log\<close> is called only after the action it records is
  committed, and that a failing audit insert never undoes or changes that action. The
  sale form calls \<open>audit_log\<close> after \<open>call_proc\<close>, which does not commit: the sale sits in
  the open transaction, and the audit insert's own \<open>commit\<close> or \<open>rollback\<close> decides
  it. On the sample installation a sale of 2 units out of 10 is committed together with
  its audit row when the insert goes through; when the insert raises, the form has reported
  the sale and the rollback has taken it back.
\<close>

theorem proc_sale_audit_failure_undoes_sale:
  "business audited_world = 10
   \<and> proc_sale_submit Up Up Up ''fashion_business'' sample_routines 20000 7 3 2 ''UPI''
        audited_world
       = ([Success ''ProcessSale invoked. Check Sales and Inventory.''],
          audited_world\<lparr>business := 8,
            audit_log_rows := audit_log_rows audited_world @
              [\<lparr>audit_id = 2, log_app_user_id = Some 1, log_username = ''alice'',
                action = ''PROCESS_SALE'', table_name = ''Sales'', row_id = [],
                details = ''item=7,store=3,qty=2'', log_created_at = 7\<rparr>],
            audit_log_auto := 3\<rparr>)
   \<and> proc_sale_submit Up Up Faulty ''fashion_business'' sample_routines 20000 7 3 2 ''UPI''
        audited_world
       = ([Success ''ProcessSale invoked. Check Sales and Inventory.''], audited_world)"
proof -
  have cnt: "get_proc_param_count Up ''fashion_business'' ''ProcessSale'' audited_world = Some 5"
    by (simp add: get_proc_param_count_def run_query_def count_parameters_def audited_world_def
        alice_world_def fresh_world_def sample_parameters_def)
  have params: "proc_sale_params (Some 5) 20000 7 3 2 ''UPI''
      = [PyDate 20000, PyInt 3, PyInt 7, PyInt 2, PyStr ''UPI'']"
    by (simp add: proc_sale_params_def)
  have called: "call_proc Up sample_routines ''ProcessSale''
      [PyDate 20000, PyInt 3, PyInt 7, PyInt 2, PyStr ''UPI''] audited_world
      = (Some (), audited_world\<lparr>uncommitted := Some 8\<rparr>)"
    by (simp add: call_proc_def sample_routines_def audited_world_def alice_world_def
        fresh_world_def)
  have user: "app_user (audited_world\<lparr>uncommitted := Some 8\<rparr>) = Some alice"
    by (simp add: audited_world_def)
  have who: "current_user_id (audited_world\<lparr>uncommitted := Some 8\<rparr>) = Some 1"
    "username alice = ''alice''"
    by (simp_all add: current_user_id_def audited_world_def alice_def)
  have det: "str_int 7 = ''7''" "str_int 3 = ''3''" "str_int 2 = ''2''"
    by (simp_all add: str_int_def digits10.simps hexdigit_def)
  have stock: "business audited_world = 10"
    by (simp add: audited_world_def alice_world_def fresh_world_def)
  have written: "audit_log Up (Some 1) ''alice'' ''PROCESS_SALE'' ''Sales'' (PyStr [])
        ''item=7,store=3,qty=2'' (audited_world\<lparr>uncommitted := Some 8\<rparr>)
      = audited_world\<lparr>business := 8,
            audit_log_rows := audit_log_rows audited_world @
              [\<lparr>audit_id = 2, log_app_user_id = Some 1, log_username = ''alice'',
                action = ''PROCESS_SALE'', table_name = ''Sales'', row_id = [],
                details = ''item=7,store=3,qty=2'', log_created_at = 7\<rparr>],
            audit_log_auto := 3\<rparr>"
    by (simp add: audit_log_def run_modification_def insert_audit_log_def encode_def
        commit_def view_def audited_world_def alice_world_def fresh_world_def)
  have lost: "audit_log Faulty (Some 1) ''alice'' ''PROCESS_SALE'' ''Sales'' (PyStr [])
        ''item=7,store=3,qty=2'' (audited_world\<lparr>uncommitted := Some 8\<rparr>)
      = audited_world"
    by (simp add: audit_log_def run_modification_def rollback_def audited_world_def
        alice_world_def fresh_world_def)
  have good: "proc_sale_submit Up Up Up ''fashion_business'' sample_routines 20000 7 3 2 ''UPI''
        audited_world
       = ([Success ''ProcessSale invoked. Check Sales and Inventory.''],
          audited_world\<lparr>business := 8,
            audit_log_rows := audit_log_rows audited_world @
              [\<lparr>audit_id = 2, log_app_user_id = Some 1, log_username = ''alice'',
                action = ''PROCESS_SALE'', table_name = ''Sales'', row_id = [],
                details = ''item=7,store=3,qty=2'', log_created_at = 7\<rparr>],
            audit_log_auto := 3\<rparr>)"
    unfolding proc_sale_submit_def Let_def cnt params called
    by (simp add: user who det written)
  have bad: "proc_sale_submit Up Up Faulty ''fashion_business'' sample_routines 20000 7 3 2
        ''UPI'' audited_world
       = ([Success ''ProcessSale invoked. Check Sales and Inventory.''], audited_world)"
    unfolding proc_sale_submit_def Let_def cnt params called
    by (simp add: user who det lost)
  from stock good bad show ?thesis
    by blast
qed


end
